theory Spec2Isabelle
  imports Main "HOL-Library.Sublist"
begin

section \<open>JavaScript strings and numbers\<close>

text \<open>
  A JavaScript string is a sequence of code units. The model keeps the code units below
  256 (the type \<^typ>\<open>char\<close>), which covers every literal of the program. The string methods
  the program calls are written out: \<open>String.prototype.includes\<close>, \<open>endsWith\<close>,
  \<open>replace\<close> with a string pattern (only the first occurrence is replaced) and \<open>trim\<close>.
\<close>

definition startsWith :: "string \<Rightarrow> string \<Rightarrow> bool" where
  "startsWith s t = (take (length t) s = t)"

fun includes_str :: "string \<Rightarrow> string \<Rightarrow> bool" where
  "includes_str [] t = (t = [])"
| "includes_str (c # cs) t = (startsWith (c # cs) t \<or> includes_str cs t)"

definition endsWith :: "string \<Rightarrow> string \<Rightarrow> bool" where
  "endsWith s t = (length t \<le> length s \<and> drop (length s - length t) s = t)"

fun replace_str :: "string \<Rightarrow> string \<Rightarrow> string \<Rightarrow> string" where
  "replace_str [] p r = (if p = [] then r else [])"
| "replace_str (c # cs) p r =
     (if startsWith (c # cs) p then r @ drop (length p) (c # cs)
      else c # replace_str cs p r)"

text \<open>
  Among the code units below 256, \<open>trim\<close> strips the white space and line terminators
  U+0009 to U+000D, U+0020 and U+00A0.
\<close>

definition isWhiteSpace :: "char \<Rightarrow> bool" where
  "isWhiteSpace c = ((of_char c :: nat) \<in> {9, 10, 11, 12, 13, 32, 160})"

definition trim :: "string \<Rightarrow> string" where
  "trim s = rev (dropWhile isWhiteSpace (rev (dropWhile isWhiteSpace s)))"

text \<open>Decimal rendering of a number in a template literal.\<close>

fun show_nat :: "nat \<Rightarrow> string" where
  "show_nat n =
     (if n < 10 then [''0123456789'' ! n]
      else show_nat (n div 10) @ [''0123456789'' ! (n mod 10)])"

declare show_nat.simps [simp del]

definition show_int :: "int \<Rightarrow> string" where
  "show_int i = (if i < 0 then CHR ''-'' # show_nat (nat (- i)) else show_nat (nat i))"

text \<open>
  The numbers \<open>getRelativeDate\<close> computes with are time values: an integer or \<open>NaN\<close>
  (\<open>None\<close>). Arithmetic with \<open>NaN\<close> gives \<open>NaN\<close>, every comparison with \<open>NaN\<close> is false,
  and a template literal renders it as \<open>NaN\<close>.
\<close>

type_synonym number = "int option"

definition num_sub :: "number \<Rightarrow> number \<Rightarrow> number" where
  "num_sub a b = (case (a, b) of (Some x, Some y) \<Rightarrow> Some (x - y) | _ \<Rightarrow> None)"

definition floor_div :: "number \<Rightarrow> int \<Rightarrow> number" where
  "floor_div a k = (case a of Some x \<Rightarrow> Some (x div k) | None \<Rightarrow> None)"

definition num_eq :: "number \<Rightarrow> int \<Rightarrow> bool" where
  "num_eq a k = (case a of Some x \<Rightarrow> x = k | None \<Rightarrow> False)"

definition num_lt :: "number \<Rightarrow> int \<Rightarrow> bool" where
  "num_lt a k = (case a of Some x \<Rightarrow> x < k | None \<Rightarrow> False)"

definition show_number :: "number \<Rightarrow> string" where
  "show_number a = (case a of Some x \<Rightarrow> show_int x | None \<Rightarrow> ''NaN'')"

section \<open>Effects: console output, external calls, exceptions and process exit\<close>

datatype colour = Red | Yellow | Green | Blue

datatype icon =
    Rocket | Satellite | Magnifier | CrossMark | Clipboard | Warning | CheckMark
  | Wastebasket | Broom | Party | BarChart | Bulb | StopButton

datatype error = Error (error_message: string)

datatype 'a outcome = Resolved 'a | Rejected error

record commit =
  commit_hash :: string
  commit_message :: string
  commit_author_name :: string
  commit_date :: string

record question =
  q_type :: string
  q_name :: string
  q_message :: string
  q_default :: bool

datatype keyed = AnswerYes | AnswerNo | AnswerEmpty

text \<open>
  What the program can be observed to do: the lines it writes (\<open>this.log\<close> with its
  colour and icon, \<open>console.log\<close> with an optional colour) and the calls it makes to the
  git client and to the prompt library, with their arguments.
\<close>

datatype event =
    Logged colour icon string
  | Printed "colour option" string
  | CheckIsRepo
  | Fetch string "string list"
  | Branch "string list"
  | GitLog string nat
  | Push string string "string list"
  | Remote "string list"
  | Prompt question

text \<open>
  The world outside the program, over a state \<open>'s\<close> of its own: each call of the git
  client (simple-git) and of the prompt (inquirer) takes the state of the world and gives
  the outcome of the awaited promise and the next state. \<open>git_checkIsRepo\<close> resolves to a
  boolean; \<open>git_branch\<close> resolves to the \<open>all\<close> field of the summary; \<open>git_log\<close> resolves
  to the \<open>latest\<close> field of the log (\<open>None\<close> is \<open>null\<close>: no commit); \<open>inquirer_prompt\<close>
  resolves to what the user keyed in. \<open>date_parse\<close> is the time value of
  \<open>new Date(dateString)\<close> (\<open>None\<close> is \<open>NaN\<close>, an invalid date: the constructor does not
  throw) and \<open>date_now\<close> the time value of \<open>new Date()\<close>, both in milliseconds.
\<close>

record 's env =
  git_checkIsRepo :: "'s \<Rightarrow> bool outcome \<times> 's"
  git_fetch :: "string \<Rightarrow> string list \<Rightarrow> 's \<Rightarrow> unit outcome \<times> 's"
  git_branch :: "string list \<Rightarrow> 's \<Rightarrow> string list outcome \<times> 's"
  git_log :: "string \<Rightarrow> nat \<Rightarrow> 's \<Rightarrow> commit option outcome \<times> 's"
  git_push :: "string \<Rightarrow> string \<Rightarrow> string list \<Rightarrow> 's \<Rightarrow> unit outcome \<times> 's"
  git_remote :: "string list \<Rightarrow> 's \<Rightarrow> unit outcome \<times> 's"
  inquirer_prompt :: "question \<Rightarrow> 's \<Rightarrow> keyed outcome \<times> 's"
  date_parse :: "string \<Rightarrow> int option"
  date_now :: "'s \<Rightarrow> int"

text \<open>
  A confirm prompt of inquirer resolves to the answer keyed in, and to the question's
  \<open>default\<close> when the input is empty.
\<close>

definition confirm_value :: "question \<Rightarrow> keyed \<Rightarrow> bool" where
  "confirm_value q k = (case k of AnswerYes \<Rightarrow> True | AnswerNo \<Rightarrow> False | AnswerEmpty \<Rightarrow> q_default q)"

text \<open>
  An async method either returns a value, throws, or ends the process with
  \<open>process.exit\<close>; it also leaves the events it caused and the next state of the world.
\<close>

datatype 'a completion = Return 'a | Throw error | Exit nat

type_synonym ('s, 'a) prog = "'s \<Rightarrow> 'a completion \<times> event list \<times> 's"

definition ret :: "'a \<Rightarrow> ('s, 'a) prog" where
  "ret x s = (Return x, [], s)"

definition throw :: "error \<Rightarrow> ('s, 'a) prog" where
  "throw e s = (Throw e, [], s)"

definition process_exit :: "nat \<Rightarrow> ('s, 'a) prog" where
  "process_exit n s = (Exit n, [], s)"

definition emit :: "event \<Rightarrow> ('s, unit) prog" where
  "emit ev s = (Return (), [ev], s)"

definition bind :: "('s, 'a) prog \<Rightarrow> ('a \<Rightarrow> ('s, 'b) prog) \<Rightarrow> ('s, 'b) prog" where
  "bind m f s =
     (case m s of
        (Return x, es, s') \<Rightarrow> (case f x s' of (c, es', s'') \<Rightarrow> (c, es @ es', s''))
      | (Throw e, es, s') \<Rightarrow> (Throw e, es, s')
      | (Exit n, es, s') \<Rightarrow> (Exit n, es, s'))"

definition seq :: "('s, 'a) prog \<Rightarrow> ('s, 'b) prog \<Rightarrow> ('s, 'b) prog" where
  "seq m n = bind m (\<lambda>_. n)"

text \<open>\<open>try { m } catch (error) { h error }\<close>: a process exit is not caught.\<close>

definition try_catch :: "('s, 'a) prog \<Rightarrow> (error \<Rightarrow> ('s, 'a) prog) \<Rightarrow> ('s, 'a) prog" where
  "try_catch m h s =
     (case m s of
        (Throw e, es, s') \<Rightarrow> (case h e s' of (c, es', s'') \<Rightarrow> (c, es @ es', s''))
      | (Return x, es, s') \<Rightarrow> (Return x, es, s')
      | (Exit n, es, s') \<Rightarrow> (Exit n, es, s'))"

text \<open>\<open>await\<close> of an external call: a rejected promise throws.\<close>

definition await :: "event \<Rightarrow> ('s \<Rightarrow> 'a outcome \<times> 's) \<Rightarrow> ('s, 'a) prog" where
  "await ev call s =
     (case call s of
        (Resolved x, s') \<Rightarrow> (Return x, [ev], s')
      | (Rejected e, s') \<Rightarrow> (Throw e, [ev], s'))"

text \<open>The exit status of the process once \<open>run\<close> has completed.\<close>

definition exitCode :: "'a completion \<Rightarrow> nat" where
  "exitCode c = (case c of Return _ \<Rightarrow> 0 | Exit n \<Rightarrow> n | Throw _ \<Rightarrow> 1)"

section \<open>The branch pruner\<close>

record options =
  opt_mainBranch :: "string option"
  opt_dryRun :: "bool option"
  opt_force :: "bool option"
  opt_keepDevelop :: "bool option"

record config =
  mainBranch :: string
  dryRun :: bool
  force :: bool
  keepDevelop :: bool

text \<open>The constructor: an absent or empty \<open>mainBranch\<close> is falsy and becomes \<open>main\<close>.\<close>

definition BranchPruner :: "options \<Rightarrow> config" where
  "BranchPruner opts =
     \<lparr> mainBranch = (case opt_mainBranch opts of None \<Rightarrow> ''main''
                      | Some m \<Rightarrow> if m = [] then ''main'' else m),
       dryRun = (case opt_dryRun opts of None \<Rightarrow> False | Some b \<Rightarrow> b),
       force = (case opt_force opts of None \<Rightarrow> False | Some b \<Rightarrow> b),
       keepDevelop = (opt_keepDevelop opts \<noteq> Some False) \<rparr>"

definition log_msg :: "colour \<Rightarrow> icon \<Rightarrow> string \<Rightarrow> ('s, unit) prog" where
  "log_msg c i m = emit (Logged c i m)"

definition console_log :: "colour option \<Rightarrow> string \<Rightarrow> ('s, unit) prog" where
  "console_log c m = emit (Printed c m)"

definition checkGitRepository :: "'s env \<Rightarrow> config \<Rightarrow> ('s, unit) prog" where
  "checkGitRepository g cfg =
     try_catch
       (bind (await CheckIsRepo (git_checkIsRepo g)) (\<lambda>_. ret ()))
       (\<lambda>error. seq (log_msg Red CrossMark ''Error: Not in a git repository'')
                     (process_exit 1))"

definition fetchLatest :: "'s env \<Rightarrow> config \<Rightarrow> ('s, unit) prog" where
  "fetchLatest g cfg =
     seq (log_msg Yellow Satellite ''Fetching latest changes from origin...'')
       (try_catch
          (await (Fetch ''origin'' [''--prune'']) (git_fetch g ''origin'' [''--prune'']))
          (\<lambda>error. seq (log_msg Red CrossMark ''Error fetching from origin'')
                        (throw error)))"

fun printAll :: "string list \<Rightarrow> ('s, unit) prog" where
  "printAll [] = ret ()"
| "printAll (b # bs) = seq (console_log None (''  '' @ b)) (printAll bs)"

definition checkMainBranch :: "'s env \<Rightarrow> config \<Rightarrow> ('s, unit) prog" where
  "checkMainBranch g cfg =
     try_catch
       (bind (await (Branch [''-r'']) (git_branch g [''-r''])) (\<lambda>branches.
          let mainBranchRef = ''origin/'' @ mainBranch cfg in
          if mainBranchRef \<notin> set branches then
            seq (log_msg Red CrossMark
                   (''Error: Main branch '' @ [CHR 0x27] @ ''origin/'' @ mainBranch cfg
                      @ [CHR 0x27] @ '' not found''))
           (seq (log_msg Yellow Clipboard ''Available branches:'')
           (seq (printAll (take 10 branches))
                (process_exit 1)))
          else ret ()))
       (\<lambda>error. seq (log_msg Red CrossMark ''Error checking main branch'')
                     (throw error))"

text \<open>
  \<open>getMergedBranches\<close>: the two filters and the map over \<open>result.all\<close>, then the loop
  that pushes the branches to keep onto \<open>filteredBranches\<close>.
\<close>

definition mergedBranches :: "config \<Rightarrow> string list \<Rightarrow> string list" where
  "mergedBranches cfg all =
     map (\<lambda>branch. trim (replace_str branch ''origin/'' ''''))
       (filter (\<lambda>branch. \<not> endsWith branch (''origin/'' @ mainBranch cfg))
          (filter (\<lambda>branch. \<not> includes_str branch '' -> '') all))"

fun filterLoop :: "config \<Rightarrow> string list \<Rightarrow> string list \<Rightarrow> ('s, string list) prog" where
  "filterLoop cfg [] filteredBranches = ret filteredBranches"
| "filterLoop cfg (branch # rest) filteredBranches =
     (if branch = mainBranch cfg then filterLoop cfg rest filteredBranches
      else if keepDevelop cfg \<and> branch = ''develop'' then
        seq (log_msg Yellow Warning
               (''Keeping '' @ [CHR 0x27] @ ''develop'' @ [CHR 0x27]
                  @ '' branch (use --no-keep-develop to remove)''))
            (filterLoop cfg rest filteredBranches)
      else if branch = ''HEAD'' then filterLoop cfg rest filteredBranches
      else filterLoop cfg rest (filteredBranches @ [branch]))"

definition mergedArgs :: "config \<Rightarrow> string list" where
  "mergedArgs cfg = [''-r'', ''--merged'', ''origin/'' @ mainBranch cfg]"

definition getMergedBranches :: "'s env \<Rightarrow> config \<Rightarrow> ('s, string list) prog" where
  "getMergedBranches g cfg =
     seq (log_msg Yellow Magnifier ''Finding merged branches...'')
       (try_catch
          (bind (await (Branch (mergedArgs cfg)) (git_branch g (mergedArgs cfg))) (\<lambda>all.
             filterLoop cfg (mergedBranches cfg all) []))
          (\<lambda>error. seq (log_msg Red CrossMark ''Error finding merged branches'')
                        (throw error)))"

record branchInfo =
  hash :: string
  message :: string
  author :: string
  date :: string

definition getBranchInfo :: "'s env \<Rightarrow> string \<Rightarrow> ('s, branchInfo) prog" where
  "getBranchInfo g branch =
     try_catch
       (bind (await (GitLog (''origin/'' @ branch) 1) (git_log g (''origin/'' @ branch) 1))
          (\<lambda>latest.
             case latest of
               Some c \<Rightarrow>
                 ret \<lparr> hash = take 7 (commit_hash c), message = commit_message c,
                       author = commit_author_name c, date = commit_date c \<rparr>
             | None \<Rightarrow>
                 ret \<lparr> hash = ''unknown'', message = ''unknown'',
                       author = ''unknown'', date = ''unknown'' \<rparr>))
       (\<lambda>error. ret \<lparr> hash = ''unknown'', message = ''unknown'',
                       author = ''unknown'', date = ''unknown'' \<rparr>)"

text \<open>
  \<open>getRelativeDate\<close>: no operation of its \<open>try\<close> block throws on a string (an
  unparseable string gives an invalid date, whose time value is \<open>NaN\<close>), so the \<open>catch\<close>
  block has no branch here. The state of the world gives the current time. The source
  computes in IEEE doubles and the model in exact integers: the two agree as long as the
  two time values are less than \<open>2^53\<close> milliseconds apart, which holds for every
  clock and every commit date in use; beyond that the rounded quotient of the source can
  be one more than the exact one.
\<close>

definition getRelativeDate :: "'s env \<Rightarrow> 's \<Rightarrow> string \<Rightarrow> string" where
  "getRelativeDate g s dateString =
     (let date = date_parse g dateString;
          now = Some (date_now g s);
          diffMs = num_sub now date;
          diffDays = floor_div diffMs (1000 * 60 * 60 * 24)
      in if num_eq diffDays 0 then ''today''
         else if num_eq diffDays 1 then ''yesterday''
         else if num_lt diffDays 7 then show_number diffDays @ '' days ago''
         else if num_lt diffDays 30 then show_number (floor_div diffDays 7) @ '' weeks ago''
         else if num_lt diffDays 365 then show_number (floor_div diffDays 30) @ '' months ago''
         else show_number (floor_div diffDays 365) @ '' years ago'')"

text \<open>The bullet that precedes a branch name is written \<open>*\<close> here.\<close>

fun displayLoop :: "'s env \<Rightarrow> string list \<Rightarrow> ('s, unit) prog" where
  "displayLoop g [] = ret ()"
| "displayLoop g (branch # rest) =
     bind (getBranchInfo g branch) (\<lambda>info.
     bind (\<lambda>s. ret (getRelativeDate g s (date info)) s) (\<lambda>relativeDate.
     seq (console_log (Some Blue) (''  * '' @ branch))
    (seq (console_log None (''    Last commit: '' @ hash info @ '' '' @ message info))
    (seq (console_log None (''    Author: '' @ author info @ '' ('' @ relativeDate @ '')''))
    (seq (console_log None [])
         (displayLoop g rest))))))"

definition displayBranches :: "'s env \<Rightarrow> string list \<Rightarrow> ('s, unit) prog" where
  "displayBranches g branches =
     seq (log_msg Yellow Clipboard ''Found the following merged branches:'')
         (displayLoop g branches)"

definition confirmQuestion :: question where
  "confirmQuestion =
     \<lparr> q_type = ''confirm'', q_name = ''confirmed'',
       q_message = ''Are you sure you want to continue?'', q_default = False \<rparr>"

definition confirmDeletion :: "'s env \<Rightarrow> config \<Rightarrow> string list \<Rightarrow> ('s, bool) prog" where
  "confirmDeletion g cfg branches =
     (if force cfg then ret True
      else
        seq (console_log None [])
       (seq (log_msg Yellow Warning
               ''This will permanently delete the above branches from origin!'')
       (bind (await (Prompt confirmQuestion) (inquirer_prompt g confirmQuestion))
          (\<lambda>keyed. ret (confirm_value confirmQuestion keyed)))))"

record counts =
  deletedCount :: int
  failedCount :: int

fun deleteLoop :: "'s env \<Rightarrow> string list \<Rightarrow> counts \<Rightarrow> ('s, counts) prog" where
  "deleteLoop g [] c = ret c"
| "deleteLoop g (branch # rest) c =
     bind
       (try_catch
          (seq (console_log (Some Yellow) (''Deleting origin/'' @ branch @ ''...''))
          (seq (await (Push ''origin'' branch [''--delete''])
                  (git_push g ''origin'' branch [''--delete'']))
          (seq (log_msg Green CheckMark (''Deleted origin/'' @ branch))
               (ret (c\<lparr>deletedCount := deletedCount c + 1\<rparr>)))))
          (\<lambda>error.
             seq (log_msg Red CrossMark (''Failed to delete origin/'' @ branch))
                 (ret (c\<lparr>failedCount := failedCount c + 1\<rparr>))))
       (\<lambda>c'. deleteLoop g rest c')"

definition deleteBranches :: "'s env \<Rightarrow> string list \<Rightarrow> ('s, counts) prog" where
  "deleteBranches g branches =
     seq (log_msg Red Wastebasket ''Deleting merged branches from origin...'')
         (deleteLoop g branches \<lparr> deletedCount = 0, failedCount = 0 \<rparr>)"

definition cleanupLocal :: "'s env \<Rightarrow> ('s, unit) prog" where
  "cleanupLocal g =
     seq (log_msg Yellow Broom ''Cleaning up local tracking branches...'')
       (try_catch
          (await (Remote [''prune'', ''origin'']) (git_remote g [''prune'', ''origin'']))
          (\<lambda>error. log_msg Yellow Warning
                      ''Warning: Could not prune local tracking branches''))"

datatype remaining = Count nat | CountUnknown

definition show_remaining :: "remaining \<Rightarrow> string" where
  "show_remaining r = (case r of Count n \<Rightarrow> show_nat n | CountUnknown \<Rightarrow> ''unknown'')"

definition getRemainingBranchCount :: "'s env \<Rightarrow> ('s, remaining) prog" where
  "getRemainingBranchCount g =
     try_catch
       (bind (await (Branch [''-r'']) (git_branch g [''-r''])) (\<lambda>all.
          ret (Count (length (filter (\<lambda>branch. \<not> includes_str branch '' -> '') all)))))
       (\<lambda>error. ret CountUnknown)"

text \<open>
  \<open>run\<close>: each early \<open>return\<close> of the source is the end of a branch here. A value thrown
  by a step is caught at the end, logged, and the process exits with status 1. The
  summary lines that end \<open>run\<close> are \<open>summary\<close>.
\<close>

definition summary :: "'s env \<Rightarrow> counts \<Rightarrow> ('s, unit) prog" where
  "summary g c =
     seq (console_log None [])
    (seq (log_msg Green Party ''Cleanup complete!'')
    (seq (log_msg Green CheckMark (''Deleted: '' @ show_int (deletedCount c) @ '' branches''))
    (seq (if failedCount c > 0
          then log_msg Red CrossMark (''Failed: '' @ show_int (failedCount c) @ '' branches'')
          else ret ())
    (bind (getRemainingBranchCount g) (\<lambda>remainingCount.
     seq (log_msg Blue BarChart
            (''Remaining remote branches: '' @ show_remaining remainingCount))
         (log_msg Yellow Bulb
            (''Tip: Run '' @ [CHR 0x27] @ ''git branch -vv'' @ [CHR 0x27]
               @ '' to see if you have any local branches tracking deleted remotes'')))))))"

definition run :: "'s env \<Rightarrow> config \<Rightarrow> ('s, unit) prog" where
  "run g cfg =
     try_catch
       (seq (log_msg Blue Rocket ''Starting merged branch cleanup...'')
       (seq (checkGitRepository g cfg)
       (seq (fetchLatest g cfg)
       (seq (checkMainBranch g cfg)
       (bind (getMergedBranches g cfg) (\<lambda>branches.
          if length branches = 0 then
            log_msg Green CheckMark ''No merged branches found to delete''
          else
            seq (displayBranches g branches)
              (if dryRun cfg then
                 seq (log_msg Yellow Magnifier
                        ''DRY RUN: The above branches would be deleted from origin'')
                     (log_msg Yellow Bulb ''Run without --dry-run to actually delete them'')
               else
                 bind (confirmDeletion g cfg branches) (\<lambda>confirmed.
                   if \<not> confirmed then log_msg Yellow StopButton ''Operation cancelled''
                   else
                     bind (deleteBranches g branches) (\<lambda>c.
                     seq (cleanupLocal g)
                         (summary g c))))))))))
       (\<lambda>error. seq (log_msg Red CrossMark (''Error: '' @ error_message error))
                     (process_exit 1))"

section \<open>Notions the properties are stated with\<close>

text \<open>
  The steps of \<open>run\<close> up to the candidate list: the opening line, the three checks and
  \<open>getMergedBranches\<close>.
\<close>

definition run_until_candidates :: "'s env \<Rightarrow> config \<Rightarrow> ('s, string list) prog" where
  "run_until_candidates g cfg =
     seq (log_msg Blue Rocket ''Starting merged branch cleanup...'')
    (seq (checkGitRepository g cfg)
    (seq (fetchLatest g cfg)
    (seq (checkMainBranch g cfg)
         (getMergedBranches g cfg))))"

text \<open>The steps of \<open>run\<close> that precede \<open>getMergedBranches\<close>.\<close>

definition run_until_merged :: "'s env \<Rightarrow> config \<Rightarrow> ('s, unit) prog" where
  "run_until_merged g cfg =
     seq (log_msg Blue Rocket ''Starting merged branch cleanup...'')
    (seq (checkGitRepository g cfg)
    (seq (fetchLatest g cfg)
         (checkMainBranch g cfg)))"

text \<open>The steps of \<open>run\<close> that follow, given the candidate list.\<close>

definition after_candidates :: "'s env \<Rightarrow> config \<Rightarrow> string list \<Rightarrow> ('s, unit) prog" where
  "after_candidates g cfg branches =
     (if length branches = 0 then
        log_msg Green CheckMark ''No merged branches found to delete''
      else
        seq (displayBranches g branches)
          (if dryRun cfg then
             seq (log_msg Yellow Magnifier
                    ''DRY RUN: The above branches would be deleted from origin'')
                 (log_msg Yellow Bulb ''Run without --dry-run to actually delete them'')
           else
             bind (confirmDeletion g cfg branches) (\<lambda>confirmed.
               if \<not> confirmed then log_msg Yellow StopButton ''Operation cancelled''
               else
                 bind (deleteBranches g branches) (\<lambda>c.
                 seq (cleanupLocal g)
                     (summary g c)))))"

definition run_catch :: "error \<Rightarrow> ('s, unit) prog" where
  "run_catch error =
     seq (log_msg Red CrossMark (''Error: '' @ error_message error)) (process_exit 1)"

text \<open>What the loop of \<open>getMergedBranches\<close> lets through.\<close>

definition kept :: "config \<Rightarrow> string \<Rightarrow> bool" where
  "kept cfg b =
     (b \<noteq> mainBranch cfg \<and> \<not> (keepDevelop cfg \<and> b = ''develop'') \<and> b \<noteq> ''HEAD'')"

definition trace :: "'a completion \<times> event list \<times> 's \<Rightarrow> event list" where
  "trace r = fst (snd r)"

text \<open>The branches of the delete calls of a trace, in order.\<close>

fun pushed :: "event list \<Rightarrow> string list" where
  "pushed [] = []"
| "pushed (Push remote branch opts # es) = branch # pushed es"
| "pushed (e # es) = pushed es"

text \<open>
  The branches a trace displays, in order: \<open>displayBranches\<close> writes each name in blue
  after a bullet of four characters, and nothing else is written in plain blue.
\<close>

fun displayed :: "event list \<Rightarrow> string list" where
  "displayed [] = []"
| "displayed (Printed (Some Blue) m # es) = drop 4 m # displayed es"
| "displayed (e # es) = displayed es"

text \<open>An event that displays or deletes a branch does so for a branch of the list.\<close>

fun within :: "string list \<Rightarrow> event \<Rightarrow> bool" where
  "within bs (Push remote branch opts) = (branch \<in> set bs)"
| "within bs (Printed (Some Blue) m) = (drop 4 m \<in> set bs)"
| "within bs e = True"

fun is_prompt :: "event \<Rightarrow> bool" where
  "is_prompt (Prompt q) = True"
| "is_prompt e = False"

fun is_prune :: "event \<Rightarrow> bool" where
  "is_prune (Remote args) = True"
| "is_prune e = False"

text \<open>Output and the queries: everything but a delete, a prompt and a local prune.\<close>

fun readonly :: "event \<Rightarrow> bool" where
  "readonly (Push remote branch opts) = False"
| "readonly (Remote args) = False"
| "readonly (Prompt q) = False"
| "readonly e = True"

definition only :: "(event \<Rightarrow> bool) \<Rightarrow> ('s, 'a) prog \<Rightarrow> bool" where
  "only P m = (\<forall>s. list_all P (trace (m s)))"

text \<open>
  How the world answers the delete calls for a list of branches, one after the other,
  from a given state: \<open>True\<close> for a resolved call, \<open>False\<close> for a rejected one.
\<close>

fun pushResults :: "'s env \<Rightarrow> string list \<Rightarrow> 's \<Rightarrow> bool list" where
  "pushResults g [] s = []"
| "pushResults g (branch # rest) s =
     (case git_push g ''origin'' branch [''--delete''] s of
        (Resolved u, s') \<Rightarrow> True # pushResults g rest s'
      | (Rejected e, s') \<Rightarrow> False # pushResults g rest s')"

subsection \<open>A concrete world\<close>

text \<open>
  A repository with a symbolic ref, the main branch, \<open>develop\<close> and three merged
  branches. The state counts the delete calls; the second one is rejected. The commit
  lookup finds a commit for one branch, finds none for another and fails for the third.
\<close>

definition demo_refs :: "string list" where
  "demo_refs =
     [''origin/HEAD -> origin/main'', ''origin/main'', ''origin/develop'',
      ''origin/feature/a'', ''origin/feature/b'', ''origin/fix'']"

definition demo_commit :: commit where
  "demo_commit =
     \<lparr> commit_hash = ''a1b2c3d4e5f60718293a4b5c6d7e8f9012345678'',
       commit_message = ''Add login functionality'',
       commit_author_name = ''John Doe'',
       commit_date = ''2024-01-01T00:00:00Z'' \<rparr>"

definition demo_env :: "bool \<Rightarrow> keyed \<Rightarrow> nat env" where
  "demo_env inRepo answer =
     \<lparr> git_checkIsRepo = (\<lambda>s. (Resolved inRepo, s)),
       git_fetch = (\<lambda>remote opts s. (Resolved (), s)),
       git_branch = (\<lambda>args s. (Resolved demo_refs, s)),
       git_log = (\<lambda>from n s.
         (if from = ''origin/feature/a'' then Resolved (Some demo_commit)
          else if from = ''origin/fix'' then Rejected (Error ''bad revision'')
          else Resolved None, s)),
       git_push = (\<lambda>remote branch opts s.
         (if s = 1 then Rejected (Error ''remote rejected'') else Resolved (), Suc s)),
       git_remote = (\<lambda>args s. (Resolved (), s)),
       inquirer_prompt = (\<lambda>q s. (Resolved answer, s)),
       date_parse = (\<lambda>d. if d = ''2024-01-01T00:00:00Z'' then Some 1704067200000 else None),
       date_now = (\<lambda>s. 1704499200000) \<rparr>"

definition demo_cfg :: "bool \<Rightarrow> bool \<Rightarrow> bool \<Rightarrow> config" where
  "demo_cfg d f k = \<lparr> mainBranch = ''main'', dryRun = d, force = f, keepDevelop = k \<rparr>"

text \<open>The same world with another list of remote refs.\<close>

definition demo_env_refs :: "string list \<Rightarrow> nat env" where
  "demo_env_refs refs = (demo_env True AnswerNo) \<lparr> git_branch := \<lambda>args s. (Resolved refs, s) \<rparr>"

section \<open>String and trace lemmas\<close>

lemma endsWith_suffix: "endsWith s t \<longleftrightarrow> suffix t s"
  unfolding endsWith_def
  by (metis length_append add_diff_cancel_right' suffix_def suffix_drop suffix_length_le append_eq_conv_conj)

lemma develop_not_main_ref:
  assumes "endsWith ''origin/develop'' (''origin/'' @ m)"
  shows "m = ''develop''"
  using assms by (simp add: endsWith_suffix suffix_Cons)

lemma develop_ref_name: "trim (replace_str ''origin/develop'' ''origin/'' []) = ''develop''"
  by (simp add: startsWith_def trim_def isWhiteSpace_def)

lemma develop_ref_no_arrow: "\<not> includes_str ''origin/develop'' '' -> ''"
  by (simp add: startsWith_def)

lemma develop_name: "trim (replace_str ''develop'' ''origin/'' []) = ''develop''"
  by (simp add: startsWith_def trim_def isWhiteSpace_def)

lemma develop_no_arrow: "\<not> includes_str ''develop'' '' -> ''"
  by (simp add: startsWith_def)

lemma pushed_append: "pushed (es @ es') = pushed es @ pushed es'"
  by (induction es rule: pushed.induct) simp_all

lemma length_pushResults: "length (pushResults g bs s) = length bs"
  by (induction bs arbitrary: s) (auto split: prod.splits outcome.splits)

lemma count_list_bool:
  "count_list xs True + count_list xs False = length xs"
  by (induction xs) auto

section \<open>The candidate list\<close>

lemma filterLoop_result:
  "\<exists>es. filterLoop cfg bs acc s = (Return (acc @ filter (kept cfg) bs), es, s)"
proof (induction bs arbitrary: acc)
  case Nil
  show ?case by (simp add: ret_def)
next
  case (Cons b bs)
  from Cons.IH [of acc] obtain es1
    where skip: "filterLoop cfg bs acc s = (Return (acc @ filter (kept cfg) bs), es1, s)" ..
  from Cons.IH [of "acc @ [b]"] obtain es2
    where keep: "filterLoop cfg bs (acc @ [b]) s = (Return ((acc @ [b]) @ filter (kept cfg) bs), es2, s)" ..
  show ?case
    using skip keep
    by (simp add: kept_def [of cfg b] seq_def bind_def log_msg_def emit_def)
qed

lemma getMergedBranches_result:
  assumes "git_branch g (mergedArgs cfg) s = (Resolved all, s')"
  shows "\<exists>es. getMergedBranches g cfg s
           = (Return (filter (kept cfg) (mergedBranches cfg all)), es, s')"
proof -
  from filterLoop_result [of cfg "mergedBranches cfg all" "[]" s']
  obtain es where "filterLoop cfg (mergedBranches cfg all) [] s'
      = (Return ([] @ filter (kept cfg) (mergedBranches cfg all)), es, s')" ..
  then show ?thesis
    using assms
    by (simp add: getMergedBranches_def seq_def bind_def try_catch_def await_def
        log_msg_def emit_def)
qed

lemma mergedBranches_drop:
  "endsWith r (''origin/'' @ mainBranch cfg) \<Longrightarrow>
     mergedBranches cfg (xs @ r # ys) = mergedBranches cfg (xs @ ys)"
  by (simp add: mergedBranches_def)

text \<open>
  Claim C1. Whatever list of refs the merged-branch query resolves to and whatever the
  configuration, \<open>getMergedBranches\<close> returns, and the candidate list it returns holds
  neither the configured main branch nor \<open>HEAD\<close>, and does not hold \<open>develop\<close> when
  \<open>keepDevelop\<close> is true.
\<close>

theorem getMergedBranches_protected:
  assumes "git_branch g (mergedArgs cfg) s = (Resolved all, s')"
  shows "\<exists>bs es. getMergedBranches g cfg s = (Return bs, es, s')
           \<and> mainBranch cfg \<notin> set bs \<and> ''HEAD'' \<notin> set bs
           \<and> (keepDevelop cfg \<longrightarrow> ''develop'' \<notin> set bs)"
proof -
  from getMergedBranches_result [OF assms] obtain es where
    "getMergedBranches g cfg s = (Return (filter (kept cfg) (mergedBranches cfg all)), es, s')" ..
  then show ?thesis by (auto simp: kept_def)
qed

theorem getMergedBranches_protected_witness:
  "git_branch (demo_env True AnswerNo) (mergedArgs (demo_cfg False False True)) 0
     = (Resolved demo_refs, 0)
   \<and> (\<exists>bs es. getMergedBranches (demo_env True AnswerNo) (demo_cfg False False True) 0
          = (Return bs, es, 0)
        \<and> mainBranch (demo_cfg False False True) \<notin> set bs \<and> ''HEAD'' \<notin> set bs
        \<and> (keepDevelop (demo_cfg False False True) \<longrightarrow> ''develop'' \<notin> set bs))"
proof -
  have h: "git_branch (demo_env True AnswerNo) (mergedArgs (demo_cfg False False True)) 0
     = (Resolved demo_refs, 0)"
    by (simp add: demo_env_def)
  from getMergedBranches_protected [OF h] h show ?thesis by blast
qed

text \<open>
  Claim C8. When \<open>keepDevelop\<close> is false, the main branch is not \<open>develop\<close> and the
  merged-branch query lists \<open>develop\<close> (as the ref \<open>origin/develop\<close>, or as the bare
  name), the candidate list holds \<open>develop\<close>.
\<close>

theorem getMergedBranches_develop:
  assumes "\<not> keepDevelop cfg" and "mainBranch cfg \<noteq> ''develop''"
    and "git_branch g (mergedArgs cfg) s = (Resolved all, s')"
    and "''origin/develop'' \<in> set all \<or> ''develop'' \<in> set all"
  shows "\<exists>bs es. getMergedBranches g cfg s = (Return bs, es, s') \<and> ''develop'' \<in> set bs"
proof -
  from getMergedBranches_result [OF assms(3)] obtain es where
    r: "getMergedBranches g cfg s
          = (Return (filter (kept cfg) (mergedBranches cfg all)), es, s')" ..
  have "''develop'' \<in> set (mergedBranches cfg all)"
    using assms(4)
  proof
    assume listed: "''origin/develop'' \<in> set all"
    have "\<not> endsWith ''origin/develop'' (''origin/'' @ mainBranch cfg)"
      using develop_not_main_ref assms(2) by blast
    with listed show ?thesis
      unfolding mergedBranches_def
      using develop_ref_name develop_ref_no_arrow by force
  next
    assume listed: "''develop'' \<in> set all"
    have "\<not> endsWith ''develop'' (''origin/'' @ mainBranch cfg)"
      by (simp add: endsWith_def)
    with listed show ?thesis
      unfolding mergedBranches_def
      using develop_name develop_no_arrow by force
  qed
  moreover have "kept cfg ''develop''"
    using assms(1,2) by (simp add: kept_def)
  ultimately show ?thesis using r by auto
qed

theorem getMergedBranches_develop_witness:
  "\<not> keepDevelop (demo_cfg False False False)
   \<and> mainBranch (demo_cfg False False False) \<noteq> ''develop''
   \<and> git_branch (demo_env True AnswerNo) (mergedArgs (demo_cfg False False False)) 0
       = (Resolved demo_refs, 0)
   \<and> ''origin/develop'' \<in> set demo_refs
   \<and> (\<exists>bs es. getMergedBranches (demo_env True AnswerNo) (demo_cfg False False False) 0
          = (Return bs, es, 0) \<and> ''develop'' \<in> set bs)"
proof -
  have h1: "\<not> keepDevelop (demo_cfg False False False)"
    and h2: "mainBranch (demo_cfg False False False) \<noteq> ''develop''"
    by (simp_all add: demo_cfg_def)
  have h3: "git_branch (demo_env True AnswerNo) (mergedArgs (demo_cfg False False False)) 0
       = (Resolved demo_refs, 0)"
    by (simp add: demo_env_def)
  have h4: "''origin/develop'' \<in> set demo_refs"
    by (simp add: demo_refs_def)
  from getMergedBranches_develop [OF h1 h2 h3 disjI1 [OF h4]] h1 h2 h3 h4 show ?thesis by blast
qed

text \<open>
  A listed ref that ends with \<open>origin/<mainBranch>\<close> is dropped by the second filter,
  whatever precedes that suffix: the candidate list is the one computed from the other
  refs alone.
\<close>

lemma getMergedBranches_drops_mainRef:
  assumes "endsWith r (''origin/'' @ mainBranch cfg)"
    and "git_branch g (mergedArgs cfg) s = (Resolved (xs @ r # ys), s')"
  shows "\<exists>es. getMergedBranches g cfg s
           = (Return (filter (kept cfg) (mergedBranches cfg (xs @ ys))), es, s')"
  using getMergedBranches_result [OF assms(2)] mergedBranches_drop [OF assms(1)] by simp

section \<open>Deletion\<close>

lemma deleteLoop_result:
  "\<exists>c' es s'. deleteLoop g bs c s = (Return c', es, s') \<and> pushed es = bs
      \<and> deletedCount c' = deletedCount c + int (count_list (pushResults g bs s) True)
      \<and> failedCount c' = failedCount c + int (count_list (pushResults g bs s) False)
      \<and> list_all (\<lambda>e. \<not> is_prompt e \<and> \<not> is_prune e) es"
proof (induction bs arbitrary: c s)
  case Nil
  show ?case by (simp add: ret_def)
next
  case (Cons b bs)
  obtain r s1 where push: "git_push g ''origin'' b [''--delete''] s = (r, s1)"
    by (cases "git_push g ''origin'' b [''--delete''] s")
  show ?case
  proof (cases r)
    case (Resolved u)
    from Cons.IH [of "c\<lparr>deletedCount := deletedCount c + 1\<rparr>" s1]
    obtain c' es s' where
      "deleteLoop g bs (c\<lparr>deletedCount := deletedCount c + 1\<rparr>) s1 = (Return c', es, s')"
      "pushed es = bs"
      "deletedCount c' = deletedCount (c\<lparr>deletedCount := deletedCount c + 1\<rparr>)
          + int (count_list (pushResults g bs s1) True)"
      "failedCount c' = failedCount (c\<lparr>deletedCount := deletedCount c + 1\<rparr>)
          + int (count_list (pushResults g bs s1) False)"
      "list_all (\<lambda>e. \<not> is_prompt e \<and> \<not> is_prune e) es"
      by blast
    then show ?thesis
      using push Resolved
      by (simp add: bind_def seq_def try_catch_def await_def console_log_def log_msg_def
          emit_def ret_def)
  next
    case (Rejected e)
    from Cons.IH [of "c\<lparr>failedCount := failedCount c + 1\<rparr>" s1]
    obtain c' es s' where
      "deleteLoop g bs (c\<lparr>failedCount := failedCount c + 1\<rparr>) s1 = (Return c', es, s')"
      "pushed es = bs"
      "deletedCount c' = deletedCount (c\<lparr>failedCount := failedCount c + 1\<rparr>)
          + int (count_list (pushResults g bs s1) True)"
      "failedCount c' = failedCount (c\<lparr>failedCount := failedCount c + 1\<rparr>)
          + int (count_list (pushResults g bs s1) False)"
      "list_all (\<lambda>e. \<not> is_prompt e \<and> \<not> is_prune e) es"
      by blast
    then show ?thesis
      using push Rejected
      by (simp add: bind_def seq_def try_catch_def await_def console_log_def log_msg_def
          emit_def ret_def)
  qed
qed

lemma deleteBranches_result:
  "\<exists>c es s'. deleteBranches g bs s = (Return c, es, s') \<and> pushed es = bs
      \<and> deletedCount c = int (count_list (pushResults g bs s) True)
      \<and> failedCount c = int (count_list (pushResults g bs s) False)
      \<and> list_all (\<lambda>e. \<not> is_prompt e \<and> \<not> is_prune e) es"
proof -
  from deleteLoop_result [of g bs "\<lparr> deletedCount = 0, failedCount = 0 \<rparr>" s]
  obtain c es s' where
    "deleteLoop g bs \<lparr> deletedCount = 0, failedCount = 0 \<rparr> s = (Return c, es, s')"
    "pushed es = bs"
    "deletedCount c = int (count_list (pushResults g bs s) True)"
    "failedCount c = int (count_list (pushResults g bs s) False)"
    "list_all (\<lambda>e. \<not> is_prompt e \<and> \<not> is_prune e) es"
    by auto
  then show ?thesis
    by (simp add: deleteBranches_def seq_def bind_def log_msg_def emit_def)
qed

text \<open>
  Claim C2. \<open>deleteBranches\<close> always returns (a rejected delete is caught); its delete
  calls are exactly the candidates, in listing order; \<open>deletedCount\<close> is the number of
  resolved calls and \<open>failedCount\<close> the number of rejected ones. In particular, when the
  world answers three candidates with success, failure, success, the counts are 2 and 1
  and three delete calls were made.
\<close>

theorem deleteBranches_attempts_all:
  "\<exists>c es s'. deleteBranches g bs s = (Return c, es, s') \<and> pushed es = bs
      \<and> deletedCount c = int (count_list (pushResults g bs s) True)
      \<and> failedCount c = int (count_list (pushResults g bs s) False)
      \<and> (pushResults g bs s = [True, False, True] \<longrightarrow>
            deletedCount c = 2 \<and> failedCount c = 1 \<and> length (pushed es) = 3)"
proof -
  from deleteBranches_result [of g bs s] obtain c es s' where
    r: "deleteBranches g bs s = (Return c, es, s')" "pushed es = bs"
    "deletedCount c = int (count_list (pushResults g bs s) True)"
    "failedCount c = int (count_list (pushResults g bs s) False)"
    by blast
  have "pushResults g bs s = [True, False, True] \<Longrightarrow> length bs = 3"
    using length_pushResults [of g bs s] by simp
  with r show ?thesis by auto
qed

theorem deleteBranches_attempts_all_witness:
  "pushResults (demo_env True AnswerNo) [''feature/a'', ''feature/b'', ''fix''] 0
     = [True, False, True]
   \<and> (\<exists>c es s'. deleteBranches (demo_env True AnswerNo) [''feature/a'', ''feature/b'', ''fix''] 0
          = (Return c, es, s')
        \<and> pushed es = [''feature/a'', ''feature/b'', ''fix'']
        \<and> deletedCount c = 2 \<and> failedCount c = 1)"
proof -
  have h: "pushResults (demo_env True AnswerNo) [''feature/a'', ''feature/b'', ''fix''] 0
     = [True, False, True]"
    by (simp add: demo_env_def)
  from deleteBranches_attempts_all
    [of "demo_env True AnswerNo" "[''feature/a'', ''feature/b'', ''fix'']" 0] h
  show ?thesis by auto
qed

text \<open>
  Claim C9. For every candidate list and every world, the counts \<open>deleteBranches\<close>
  returns add up to the length of the list, and neither is negative.
\<close>

theorem deleteBranches_counts:
  "\<exists>c es s'. deleteBranches g bs s = (Return c, es, s')
      \<and> deletedCount c + failedCount c = int (length bs)
      \<and> 0 \<le> deletedCount c \<and> 0 \<le> failedCount c"
proof -
  from deleteBranches_result [of g bs s] obtain c es s' where
    r: "deleteBranches g bs s = (Return c, es, s')"
    "deletedCount c = int (count_list (pushResults g bs s) True)"
    "failedCount c = int (count_list (pushResults g bs s) False)"
    by blast
  have "deletedCount c + failedCount c = int (length (pushResults g bs s))"
    using r(2,3) count_list_bool [of "pushResults g bs s"] by simp
  then show ?thesis
    using r by (simp add: length_pushResults)
qed

section \<open>Branch information\<close>

text \<open>
  Claim C7. \<open>getBranchInfo\<close> always returns, it never throws; and when the commit lookup
  is rejected or resolves with no commit, all four fields of the record it returns are
  \<open>unknown\<close>.
\<close>

theorem getBranchInfo_unknown:
  "(\<exists>info es s'. getBranchInfo g b s = (Return info, es, s'))
   \<and> ((\<exists>e s'. git_log g (''origin/'' @ b) 1 s = (Rejected e, s')) \<or>
       (\<exists>s'. git_log g (''origin/'' @ b) 1 s = (Resolved None, s')) \<longrightarrow>
      fst (getBranchInfo g b s)
        = Return \<lparr> hash = ''unknown'', message = ''unknown'',
                   author = ''unknown'', date = ''unknown'' \<rparr>)"
  by (cases "git_log g (''origin/'' @ b) 1 s")
     (auto simp: getBranchInfo_def bind_def try_catch_def await_def ret_def
           split: outcome.splits option.splits)

theorem getBranchInfo_unknown_witness:
  "git_log (demo_env True AnswerNo) (''origin/'' @ ''fix'') 1 0
     = (Rejected (Error ''bad revision''), 0)
   \<and> git_log (demo_env True AnswerNo) (''origin/'' @ ''feature/b'') 1 0 = (Resolved None, 0)
   \<and> fst (getBranchInfo (demo_env True AnswerNo) ''fix'' 0)
       = Return \<lparr> hash = ''unknown'', message = ''unknown'',
                  author = ''unknown'', date = ''unknown'' \<rparr>
   \<and> fst (getBranchInfo (demo_env True AnswerNo) ''feature/b'' 0)
       = Return \<lparr> hash = ''unknown'', message = ''unknown'',
                  author = ''unknown'', date = ''unknown'' \<rparr>"
proof -
  have h1: "git_log (demo_env True AnswerNo) (''origin/'' @ ''fix'') 1 0
     = (Rejected (Error ''bad revision''), 0)"
    by (simp add: demo_env_def)
  have h2: "git_log (demo_env True AnswerNo) (''origin/'' @ ''feature/b'') 1 0
     = (Resolved None, 0)"
    by (simp add: demo_env_def)
  from getBranchInfo_unknown [of "demo_env True AnswerNo" "''fix''" 0]
    getBranchInfo_unknown [of "demo_env True AnswerNo" "''feature/b''" 0] h1 h2
  show ?thesis by blast
qed

section \<open>Sequencing and traces\<close>

lemma trace_tuple [simp]: "trace (c, es, s) = es"
  by (simp add: trace_def)

lemma bind_seq_assoc: "bind (seq m n) f = seq m (bind n f)"
  by (rule ext) (simp add: seq_def bind_def split: prod.splits completion.splits)

lemma bind_ret: "bind (ret x) f = f x"
  by (rule ext) (simp add: bind_def ret_def)

lemma bind_Return:
  "m s = (Return x, es, s') \<Longrightarrow> f x s' = (c, es', s'') \<Longrightarrow> bind m f s = (c, es @ es', s'')"
  by (simp add: bind_def)

lemma seq_Return:
  "m s = (Return x, es, s') \<Longrightarrow> n s' = (c, es', s'') \<Longrightarrow> seq m n s = (c, es @ es', s'')"
  by (simp add: seq_def bind_def)

lemma bind_Throw: "m s = (Throw e, es, s') \<Longrightarrow> bind m f s = (Throw e, es, s')"
  by (simp add: bind_def)

lemma bind_prefix:
  "m s = (c, es, s') \<Longrightarrow> \<exists>c' rest s''. bind m f s = (c', es @ rest, s'')"
  by (cases c) (auto simp: bind_def split: prod.splits)

lemma seq_prefix:
  "m s = (c, es, s') \<Longrightarrow> \<exists>c' rest s''. seq m n s = (c', es @ rest, s'')"
  unfolding seq_def by (rule bind_prefix)

lemma try_catch_prefix:
  "m s = (c, es, s') \<Longrightarrow> \<exists>c' rest s''. try_catch m h s = (c', es @ rest, s'')"
  by (cases c) (auto simp: try_catch_def split: prod.splits)

lemmas prog_defs =
  ret_def throw_def process_exit_def emit_def bind_def seq_def try_catch_def await_def
  log_msg_def console_log_def

lemma onlyD: "only P m \<Longrightarrow> m s = (c, es, s') \<Longrightarrow> list_all P es"
  unfolding only_def by (metis trace_tuple)

lemma only_mono: "only P m \<Longrightarrow> (\<And>e. P e \<Longrightarrow> Q e) \<Longrightarrow> only Q m"
  unfolding only_def by (metis (mono_tags, lifting) list_all_iff)

lemma only_ret: "only P (ret x)"
  by (simp add: only_def ret_def)

lemma only_throw: "only P (throw e)"
  by (simp add: only_def throw_def)

lemma only_process_exit: "only P (process_exit n)"
  by (simp add: only_def process_exit_def)

lemma only_log_msg: "P (Logged c i m) \<Longrightarrow> only P (log_msg c i m)"
  by (simp add: only_def log_msg_def emit_def)

lemma only_console_log: "P (Printed c m) \<Longrightarrow> only P (console_log c m)"
  by (simp add: only_def console_log_def emit_def)

lemma only_await: "P ev \<Longrightarrow> only P (await ev call)"
  by (simp add: only_def await_def split: prod.splits outcome.splits)

lemma only_bind:
  assumes "only P m" and "\<And>x. only P (f x)"
  shows "only P (bind m f)"
  unfolding only_def
proof
  fix s
  obtain c es s' where m: "m s = (c, es, s')" by (cases "m s")
  from onlyD [OF assms(1) m] have es: "list_all P es" .
  show "list_all P (trace (bind m f s))"
  proof (cases c)
    case (Return x)
    obtain c' es' s'' where f: "f x s' = (c', es', s'')" by (cases "f x s'")
    from onlyD [OF assms(2) f] have "list_all P es'" .
    with es m Return f show ?thesis by (simp add: bind_def)
  next
    case (Throw e)
    with es m show ?thesis by (simp add: bind_def)
  next
    case (Exit n)
    with es m show ?thesis by (simp add: bind_def)
  qed
qed

lemma only_seq: "only P m \<Longrightarrow> only P n \<Longrightarrow> only P (seq m n)"
  by (simp add: seq_def only_bind)

lemma only_try_catch:
  assumes "only P m" and "\<And>e. only P (h e)"
  shows "only P (try_catch m h)"
  unfolding only_def
proof
  fix s
  obtain c es s' where m: "m s = (c, es, s')" by (cases "m s")
  from onlyD [OF assms(1) m] have es: "list_all P es" .
  show "list_all P (trace (try_catch m h s))"
  proof (cases c)
    case (Return x)
    with es m show ?thesis by (simp add: try_catch_def)
  next
    case (Throw e)
    obtain c' es' s'' where h: "h e s' = (c', es', s'')" by (cases "h e s'")
    from onlyD [OF assms(2) h] have "list_all P es'" .
    with es m Throw h show ?thesis by (simp add: try_catch_def)
  next
    case (Exit n)
    with es m show ?thesis by (simp add: try_catch_def)
  qed
qed

lemmas only_rules =
  only_ret only_throw only_process_exit only_log_msg only_console_log only_await
  only_bind only_seq only_try_catch

lemma readonly_no_effect:
  "list_all readonly es \<Longrightarrow>
     pushed es = [] \<and> filter is_prompt es = [] \<and> filter is_prune es = []"
  by (induction es rule: pushed.induct) simp_all

section \<open>The steps of a run\<close>

lemma run_split:
  "run g cfg = try_catch (bind (run_until_candidates g cfg) (after_candidates g cfg)) run_catch"
  by (simp add: run_def run_until_candidates_def bind_seq_assoc
      after_candidates_def [abs_def] run_catch_def [abs_def])

lemma run_after_candidates:
  assumes "run_until_candidates g cfg s = (Return bs, es0, s0)"
    and "after_candidates g cfg bs s0 = (c, es, s')"
  shows "run g cfg s =
    (case c of
       Throw e \<Rightarrow> (Exit 1, es0 @ es @ [Logged Red CrossMark (''Error: '' @ error_message e)], s')
     | Return u \<Rightarrow> (Return u, es0 @ es, s')
     | Exit n \<Rightarrow> (Exit n, es0 @ es, s'))"
  using assms
  by (cases c)
     (simp_all add: run_split try_catch_def bind_def run_catch_def seq_def log_msg_def
        emit_def process_exit_def)

text \<open>\<open>run\<close> catches whatever its steps throw: it returns or exits, it never throws.\<close>

lemma run_never_throws: "fst (run g cfg s) \<noteq> Throw e"
proof -
  obtain c es s' where
    m: "bind (run_until_candidates g cfg) (after_candidates g cfg) s = (c, es, s')"
    using prod_cases3 by blast
  then show ?thesis
    by (cases c)
       (simp_all add: run_split try_catch_def run_catch_def seq_def bind_def log_msg_def
          emit_def process_exit_def)
qed

text \<open>The constructor never leaves the main branch name empty.\<close>

lemma BranchPruner_mainBranch: "mainBranch (BranchPruner opts) \<noteq> []"
  by (simp add: BranchPruner_def split: option.splits)

lemma only_checkGitRepository: "only readonly (checkGitRepository g cfg)"
  unfolding checkGitRepository_def by (intro only_rules) simp_all

lemma only_fetchLatest: "only readonly (fetchLatest g cfg)"
  unfolding fetchLatest_def by (intro only_rules) simp_all

lemma only_printAll: "only readonly (printAll bs)"
  by (induction bs) (simp_all add: only_rules)

lemma only_checkMainBranch: "only readonly (checkMainBranch g cfg)"
  unfolding checkMainBranch_def Let_def
  by (intro only_rules) (simp_all add: only_rules only_printAll)

lemma only_filterLoop: "only readonly (filterLoop cfg bs acc)"
  by (induction bs arbitrary: acc) (simp_all add: only_rules)

lemma only_getMergedBranches: "only readonly (getMergedBranches g cfg)"
  unfolding getMergedBranches_def
  by (intro only_rules) (simp_all add: only_filterLoop)

lemma only_run_until_candidates: "only readonly (run_until_candidates g cfg)"
  unfolding run_until_candidates_def
  by (intro only_rules only_checkGitRepository only_fetchLatest only_checkMainBranch
      only_getMergedBranches) simp

lemma getBranchInfo_returns:
  "\<exists>info. getBranchInfo g b s
     = (Return info, [GitLog (''origin/'' @ b) 1], snd (git_log g (''origin/'' @ b) 1 s))"
  by (cases "git_log g (''origin/'' @ b) 1 s")
     (auto simp: getBranchInfo_def bind_def try_catch_def await_def ret_def
           split: outcome.splits option.splits)

lemma displayLoop_returns:
  "\<exists>es s'. displayLoop g bs s = (Return (), es, s') \<and> list_all readonly es"
proof (induction bs arbitrary: s)
  case Nil
  show ?case by (simp add: ret_def)
next
  case (Cons b bs)
  from getBranchInfo_returns [of g b s] obtain info where
    i: "getBranchInfo g b s
          = (Return info, [GitLog (''origin/'' @ b) 1], snd (git_log g (''origin/'' @ b) 1 s))" ..
  from Cons.IH [of "snd (git_log g (''origin/'' @ b) 1 s)"] obtain es s' where
    "displayLoop g bs (snd (git_log g (''origin/'' @ b) 1 s)) = (Return (), es, s')"
    "list_all readonly es" by blast
  with i show ?case
    by (simp add: bind_def seq_def ret_def console_log_def emit_def)
qed

lemma displayBranches_returns:
  "\<exists>es s'. displayBranches g bs s = (Return (), es, s') \<and> list_all readonly es"
proof -
  from displayLoop_returns [of g bs s] obtain es s' where
    "displayLoop g bs s = (Return (), es, s')" "list_all readonly es" by blast
  then show ?thesis
    by (simp add: displayBranches_def seq_def bind_def log_msg_def emit_def)
qed

lemma cleanupLocal_returns:
  "\<exists>es s'. cleanupLocal g s = (Return (), es, s')
     \<and> pushed es = [] \<and> filter is_prompt es = []"
  by (cases "git_remote g [''prune'', ''origin''] s")
     (auto simp: cleanupLocal_def seq_def bind_def try_catch_def await_def log_msg_def emit_def
           split: outcome.splits)

lemma getRemainingBranchCount_returns:
  "\<exists>n. getRemainingBranchCount g s = (Return n, [Branch [''-r'']], snd (git_branch g [''-r''] s))"
  by (cases "git_branch g [''-r''] s")
     (auto simp: getRemainingBranchCount_def bind_def try_catch_def await_def ret_def
           split: outcome.splits)

lemma summary_returns:
  "\<exists>es s'. summary g c s = (Return (), es, s') \<and> list_all readonly es"
proof -
  from getRemainingBranchCount_returns [of g s] obtain n where
    "getRemainingBranchCount g s = (Return n, [Branch [''-r'']], snd (git_branch g [''-r''] s))" ..
  then show ?thesis
    by (simp add: summary_def seq_def bind_def log_msg_def console_log_def emit_def ret_def)
qed

lemma deletion_phase:
  "\<exists>c es2 s2 es3 s3.
      deleteBranches g bs s = (Return c, es2, s2) \<and> pushed es2 = bs
      \<and> bind (deleteBranches g bs) (\<lambda>c. seq (cleanupLocal g) (summary g c)) s
          = (Return (), es2 @ es3, s3)
      \<and> filter is_prompt (es2 @ es3) = []"
proof -
  from deleteBranches_result [of g bs s] obtain c es2 s2 where
    d: "deleteBranches g bs s = (Return c, es2, s2)" "pushed es2 = bs"
    "list_all (\<lambda>e. \<not> is_prompt e \<and> \<not> is_prune e) es2" by blast
  from cleanupLocal_returns [of g s2] obtain es3 s3 where
    c: "cleanupLocal g s2 = (Return (), es3, s3)" "filter is_prompt es3 = []" by blast
  from summary_returns [of g c s3] obtain es4 s4 where
    s: "summary g c s3 = (Return (), es4, s4)" "list_all readonly es4" by blast
  have "filter is_prompt es2 = []"
    using d(3) by (induction es2) auto
  moreover have "filter is_prompt es4 = []"
    using readonly_no_effect [OF s(2)] by simp
  ultimately have "filter is_prompt (es2 @ es3 @ es4) = []"
    using c(2) by simp
  moreover have "bind (deleteBranches g bs) (\<lambda>c. seq (cleanupLocal g) (summary g c)) s
          = (Return (), es2 @ es3 @ es4, s4)"
    using d(1) c(1) s(1) by (simp add: bind_def seq_def)
  ultimately show ?thesis using d(1,2) by blast
qed

lemma confirmDeletion_prompt:
  assumes "\<not> force cfg" and "inquirer_prompt g confirmQuestion s = (answer, s')"
  shows "confirmDeletion g cfg bs s =
    ((case answer of Resolved k \<Rightarrow> Return (confirm_value confirmQuestion k)
                   | Rejected e \<Rightarrow> Throw e),
     [Printed None [],
      Logged Yellow Warning ''This will permanently delete the above branches from origin!'',
      Prompt confirmQuestion], s')"
  using assms
  by (cases answer) (simp_all add: confirmDeletion_def prog_defs)

lemma after_candidates_forced:
  assumes "\<not> dryRun cfg" and "bs \<noteq> []" and "force cfg"
  shows "after_candidates g cfg bs
    = seq (displayBranches g bs)
        (bind (deleteBranches g bs) (\<lambda>c. seq (cleanupLocal g) (summary g c)))"
  using assms by (simp add: after_candidates_def confirmDeletion_def bind_ret)

lemma after_candidates_prompted:
  fixes g :: "'s env"
  assumes "\<not> dryRun cfg" and "bs \<noteq> []" and "\<not> force cfg"
    and "displayBranches g bs s0 = (Return (), es1, s1)"
    and "inquirer_prompt g confirmQuestion s1 = (answer, s2)"
  shows "\<exists>c rest s3. after_candidates g cfg bs s0
     = (c, es1 @ [Printed None [],
               Logged Yellow Warning
                 ''This will permanently delete the above branches from origin!'',
               Prompt confirmQuestion] @ rest, s3)
     \<and> (answer = Resolved AnswerNo \<or> answer = Resolved AnswerEmpty \<longrightarrow>
          c = Return () \<and> rest = [Logged Yellow StopButton ''Operation cancelled''] \<and> s3 = s2)"
proof -
  define K :: "bool \<Rightarrow> ('s, unit) prog" where
    "K = (\<lambda>confirmed.
       if \<not> confirmed then log_msg Yellow StopButton ''Operation cancelled''
       else bind (deleteBranches g bs) (\<lambda>c. seq (cleanupLocal g) (summary g c)))"
  have ac: "after_candidates g cfg bs
      = seq (displayBranches g bs) (bind (confirmDeletion g cfg bs) K)"
    using assms(1,2) by (simp add: after_candidates_def K_def)
  note cd = confirmDeletion_prompt [OF assms(3,5), of bs]
  show ?thesis
  proof (cases answer)
    case (Rejected e)
    from cd Rejected have "bind (confirmDeletion g cfg bs) K s1
        = (Throw e, [Printed None [],
               Logged Yellow Warning
                 ''This will permanently delete the above branches from origin!'',
               Prompt confirmQuestion], s2)"
      by (simp add: bind_Throw)
    from seq_Return [where m = "displayBranches g bs"
        and n = "bind (confirmDeletion g cfg bs) K", OF assms(4) this] Rejected show ?thesis
      by (simp add: ac)
  next
    case (Resolved k)
    show ?thesis
    proof (cases "confirm_value confirmQuestion k")
      case False
      have "K False s2 = (Return (), [Logged Yellow StopButton ''Operation cancelled''], s2)"
        by (simp add: K_def log_msg_def emit_def)
      with cd Resolved False have "bind (confirmDeletion g cfg bs) K s1
        = (Return (), [Printed None [],
               Logged Yellow Warning
                 ''This will permanently delete the above branches from origin!'',
               Prompt confirmQuestion] @ [Logged Yellow StopButton ''Operation cancelled''], s2)"
        by (intro bind_Return [where m = "confirmDeletion g cfg bs" and f = K]) simp_all
      from seq_Return [where m = "displayBranches g bs"
        and n = "bind (confirmDeletion g cfg bs) K", OF assms(4) this] show ?thesis
        by (simp add: ac)
    next
      case True
      then have yes: "k = AnswerYes"
        by (cases k) (simp_all add: confirm_value_def confirmQuestion_def)
      from deletion_phase [of g bs s2] obtain es2 es3 s3 where
        "bind (deleteBranches g bs) (\<lambda>c. seq (cleanupLocal g) (summary g c)) s2
           = (Return (), es2 @ es3, s3)" by blast
      then have "K True s2 = (Return (), es2 @ es3, s3)"
        by (simp add: K_def)
      with cd Resolved True have "bind (confirmDeletion g cfg bs) K s1
        = (Return (), [Printed None [],
               Logged Yellow Warning
                 ''This will permanently delete the above branches from origin!'',
               Prompt confirmQuestion] @ (es2 @ es3), s3)"
        by (intro bind_Return [where m = "confirmDeletion g cfg bs" and f = K]) simp_all
      from seq_Return [where m = "displayBranches g bs"
        and n = "bind (confirmDeletion g cfg bs) K", OF assms(4) this] Resolved yes show ?thesis
        by (simp add: ac)
    qed
  qed
qed

section \<open>The concrete world, evaluated\<close>

lemmas step_defs =
  run_until_candidates_def checkGitRepository_def fetchLatest_def checkMainBranch_def
  getMergedBranches_def mergedArgs_def mergedBranches_def startsWith_def endsWith_def
  trim_def isWhiteSpace_def

lemmas run_defs =
  run_def getBranchInfo_def getRelativeDate_def displayBranches_def confirmDeletion_def
  confirmQuestion_def confirm_value_def deleteBranches_def cleanupLocal_def
  getRemainingBranchCount_def summary_def show_remaining_def show_int_def show_number_def
  num_sub_def floor_div_def num_eq_def num_lt_def show_nat.simps demo_commit_def

lemma demo_candidates:
  "fst (run_until_candidates (demo_env True a) (demo_cfg d f True) 0)
     = Return [''feature/a'', ''feature/b'', ''fix'']"
  by (simp add: prog_defs step_defs demo_env_def demo_cfg_def demo_refs_def)

section \<open>Dry run and confirmation\<close>

text \<open>
  Claim C3. In a run with \<open>dryRun\<close> true that reaches a non-empty candidate list, the
  candidates are displayed, the two dry-run lines are written and \<open>run\<close> returns: the
  process ends with status 0, and the whole trace holds no delete call, no prompt and no
  local prune.
\<close>

theorem run_dryRun:
  assumes "dryRun cfg" and "run_until_candidates g cfg s = (Return bs, es0, s0)" and "bs \<noteq> []"
  shows "\<exists>es1 s1. displayBranches g bs s0 = (Return (), es1, s1)
     \<and> run g cfg s
         = (Return (),
            es0 @ es1 @
              [Logged Yellow Magnifier ''DRY RUN: The above branches would be deleted from origin'',
               Logged Yellow Bulb ''Run without --dry-run to actually delete them''],
            s1)
     \<and> exitCode (fst (run g cfg s)) = 0
     \<and> pushed (trace (run g cfg s)) = []
     \<and> filter is_prompt (trace (run g cfg s)) = []
     \<and> filter is_prune (trace (run g cfg s)) = []"
proof -
  from displayBranches_returns [of g bs s0] obtain es1 s1 where
    d: "displayBranches g bs s0 = (Return (), es1, s1)" and r1: "list_all readonly es1"
    by blast
  have r0: "list_all readonly es0"
    using onlyD [OF only_run_until_candidates assms(2)] .
  have run: "run g cfg s
         = (Return (),
            es0 @ es1 @
              [Logged Yellow Magnifier ''DRY RUN: The above branches would be deleted from origin'',
               Logged Yellow Bulb ''Run without --dry-run to actually delete them''],
            s1)"
    using assms d
    by (simp add: run_split try_catch_def bind_def after_candidates_def seq_def
        log_msg_def emit_def)
  have "list_all readonly (trace (run g cfg s))"
    using r0 r1 by (simp add: run)
  from readonly_no_effect [OF this] d run show ?thesis
    by (simp add: exitCode_def)
qed

theorem run_dryRun_witness:
  "dryRun (demo_cfg True False True)
   \<and> fst (run_until_candidates (demo_env True AnswerYes) (demo_cfg True False True) 0)
       = Return [''feature/a'', ''feature/b'', ''fix'']
   \<and> fst (run (demo_env True AnswerYes) (demo_cfg True False True) 0) = Return ()
   \<and> exitCode (fst (run (demo_env True AnswerYes) (demo_cfg True False True) 0)) = 0
   \<and> pushed (trace (run (demo_env True AnswerYes) (demo_cfg True False True) 0)) = []
   \<and> filter is_prompt (trace (run (demo_env True AnswerYes) (demo_cfg True False True) 0)) = []
   \<and> filter is_prune (trace (run (demo_env True AnswerYes) (demo_cfg True False True) 0)) = []"
proof -
  have h1: "dryRun (demo_cfg True False True)"
    by (simp add: demo_cfg_def)
  obtain c es0 s0 where
    pre: "run_until_candidates (demo_env True AnswerYes) (demo_cfg True False True) 0
            = (c, es0, s0)"
    using prod_cases3 by blast
  with demo_candidates [of AnswerYes True False]
  have h2: "run_until_candidates (demo_env True AnswerYes) (demo_cfg True False True) 0
            = (Return [''feature/a'', ''feature/b'', ''fix''], es0, s0)"
    by simp
  have h3: "[''feature/a'', ''feature/b'', ''fix''] \<noteq> []"
    by simp
  from run_dryRun [OF h1 h2 h3] h1 h2 show ?thesis
    by auto
qed

text \<open>
  Claim C4, amended. In a run with \<open>dryRun\<close> false that reaches a non-empty candidate
  list: when \<open>force\<close> is false, the prompt is the next call after the display, nothing
  has been deleted before it, and its default on empty input is no; when the answer is
  no (keyed in or by default), \<open>run\<close> writes the cancellation line and returns, the
  process ends with status 0 and the trace holds no delete call. When \<open>force\<close> is true,
  the deletion of every candidate follows the display directly, \<open>run\<close> returns, and the
  trace holds no prompt.
\<close>

theorem run_confirmation_gate:
  assumes "\<not> dryRun cfg"
    and "run_until_candidates g cfg s = (Return bs, es0, s0)" and "bs \<noteq> []"
    and "displayBranches g bs s0 = (Return (), es1, s1)"
    and "inquirer_prompt g confirmQuestion s1 = (answer, s2)"
  shows "(\<not> force cfg \<longrightarrow>
            (\<exists>rest. trace (run g cfg s)
               = es0 @ es1 @
                  [Printed None [],
                   Logged Yellow Warning
                     ''This will permanently delete the above branches from origin!'',
                   Prompt confirmQuestion] @ rest)
          \<and> pushed (es0 @ es1) = []
          \<and> confirm_value confirmQuestion AnswerEmpty = False
          \<and> (answer = Resolved AnswerNo \<or> answer = Resolved AnswerEmpty \<longrightarrow>
               run g cfg s
                 = (Return (),
                    es0 @ es1 @
                      [Printed None [],
                       Logged Yellow Warning
                         ''This will permanently delete the above branches from origin!'',
                       Prompt confirmQuestion,
                       Logged Yellow StopButton ''Operation cancelled''], s2)
               \<and> exitCode (fst (run g cfg s)) = 0
               \<and> pushed (trace (run g cfg s)) = []))
       \<and> (force cfg \<longrightarrow>
            (\<exists>c es2 s3 es3 s4.
               deleteBranches g bs s1 = (Return c, es2, s3) \<and> pushed es2 = bs
               \<and> run g cfg s = (Return (), es0 @ es1 @ es2 @ es3, s4)
               \<and> filter is_prompt (trace (run g cfg s)) = []))"
    (is "(_ \<longrightarrow> ?unforced) \<and> (_ \<longrightarrow> ?forced)")
proof -
  have r0: "list_all readonly es0"
    using onlyD [OF only_run_until_candidates assms(2)] .
  have r1: "list_all readonly es1"
    using displayBranches_returns [of g bs s0] assms(4) by simp
  have quiet: "pushed (es0 @ es1) = []" "filter is_prompt (es0 @ es1) = []"
    using readonly_no_effect [of "es0 @ es1"] r0 r1 by simp_all
  have dflt: "confirm_value confirmQuestion AnswerEmpty = False"
    by (simp add: confirm_value_def confirmQuestion_def)
  have prompted: ?unforced if nf: "\<not> force cfg"
  proof -
    from after_candidates_prompted [OF assms(1,3) nf assms(4,5)] obtain c rest s3 where
      ac: "after_candidates g cfg bs s0
         = (c, es1 @ [Printed None [],
               Logged Yellow Warning
                 ''This will permanently delete the above branches from origin!'',
               Prompt confirmQuestion] @ rest, s3)"
      and no: "answer = Resolved AnswerNo \<or> answer = Resolved AnswerEmpty \<Longrightarrow>
          c = Return () \<and> rest = [Logged Yellow StopButton ''Operation cancelled''] \<and> s3 = s2"
      by blast
    have "\<exists>rest. trace (run g cfg s)
               = es0 @ es1 @
                  [Printed None [],
                   Logged Yellow Warning
                     ''This will permanently delete the above branches from origin!'',
                   Prompt confirmQuestion] @ rest"
      using run_after_candidates [OF assms(2) ac] by (cases c) simp_all
    moreover have "run g cfg s
                 = (Return (),
                    es0 @ es1 @
                      [Printed None [],
                       Logged Yellow Warning
                         ''This will permanently delete the above branches from origin!'',
                       Prompt confirmQuestion,
                       Logged Yellow StopButton ''Operation cancelled''], s2)
               \<and> exitCode (fst (run g cfg s)) = 0
               \<and> pushed (trace (run g cfg s)) = []"
      if "answer = Resolved AnswerNo \<or> answer = Resolved AnswerEmpty"
      using run_after_candidates [OF assms(2) ac] no [OF that] quiet(1)
      by (simp add: exitCode_def pushed_append)
    ultimately show ?thesis using quiet(1) dflt by blast
  qed
  have forced: ?forced if f: "force cfg"
  proof -
    from deletion_phase [of g bs s1] obtain c es2 s3 es3 s4 where
      d: "deleteBranches g bs s1 = (Return c, es2, s3)" "pushed es2 = bs"
      "bind (deleteBranches g bs) (\<lambda>c. seq (cleanupLocal g) (summary g c)) s1
          = (Return (), es2 @ es3, s4)"
      "filter is_prompt (es2 @ es3) = []" by blast
    have "after_candidates g cfg bs s0 = (Return (), es1 @ es2 @ es3, s4)"
      using seq_Return [where m = "displayBranches g bs"
          and n = "bind (deleteBranches g bs) (\<lambda>c. seq (cleanupLocal g) (summary g c))",
          OF assms(4) d(3)]
      by (simp add: after_candidates_forced [OF assms(1,3) f])
    from run_after_candidates [OF assms(2) this]
    have run: "run g cfg s = (Return (), es0 @ es1 @ es2 @ es3, s4)" by simp
    moreover have "filter is_prompt (trace (run g cfg s)) = []"
      using quiet(2) d(4) by (simp add: run)
    ultimately show ?thesis
      using d(1,2) by blast
  qed
  from prompted forced show ?thesis by blast
qed

theorem run_confirmation_gate_witness:
  "\<not> dryRun (demo_cfg False False True) \<and> \<not> force (demo_cfg False False True)
   \<and> fst (run_until_candidates (demo_env True AnswerEmpty) (demo_cfg False False True) 0)
       = Return [''feature/a'', ''feature/b'', ''fix'']
   \<and> fst (run (demo_env True AnswerEmpty) (demo_cfg False False True) 0) = Return ()
   \<and> exitCode (fst (run (demo_env True AnswerEmpty) (demo_cfg False False True) 0)) = 0
   \<and> pushed (trace (run (demo_env True AnswerEmpty) (demo_cfg False False True) 0)) = []
   \<and> force (demo_cfg False True True)
   \<and> fst (run (demo_env True AnswerEmpty) (demo_cfg False True True) 0) = Return ()
   \<and> filter is_prompt (trace (run (demo_env True AnswerEmpty) (demo_cfg False True True) 0)) = []"
proof -
  let ?D = "demo_env True AnswerEmpty"
  have bs: "[''feature/a'', ''feature/b'', ''fix''] \<noteq> []"
    by simp
  have nd: "\<not> dryRun (demo_cfg False False True)" "\<not> dryRun (demo_cfg False True True)"
    and nf: "\<not> force (demo_cfg False False True)" and f: "force (demo_cfg False True True)"
    by (simp_all add: demo_cfg_def)
  have ans: "\<And>s. inquirer_prompt ?D confirmQuestion s = (Resolved AnswerEmpty, s)"
    by (simp add: demo_env_def)
  obtain c es0 s0 where "run_until_candidates ?D (demo_cfg False False True) 0 = (c, es0, s0)"
    using prod_cases3 by blast
  with demo_candidates [of AnswerEmpty False False]
  have pre: "run_until_candidates ?D (demo_cfg False False True) 0
            = (Return [''feature/a'', ''feature/b'', ''fix''], es0, s0)"
    by simp
  from displayBranches_returns [of ?D "[''feature/a'', ''feature/b'', ''fix'']" s0]
  obtain es1 s1 where
    d: "displayBranches ?D [''feature/a'', ''feature/b'', ''fix''] s0 = (Return (), es1, s1)"
    by blast
  obtain c' es0' s0' where "run_until_candidates ?D (demo_cfg False True True) 0 = (c', es0', s0')"
    using prod_cases3 by blast
  with demo_candidates [of AnswerEmpty False True]
  have pre': "run_until_candidates ?D (demo_cfg False True True) 0
            = (Return [''feature/a'', ''feature/b'', ''fix''], es0', s0')"
    by simp
  from displayBranches_returns [of ?D "[''feature/a'', ''feature/b'', ''fix'']" s0']
  obtain es1' s1' where
    d': "displayBranches ?D [''feature/a'', ''feature/b'', ''fix''] s0' = (Return (), es1', s1')"
    by blast
  from run_confirmation_gate [OF nd(1) pre bs d ans] run_confirmation_gate [OF nd(2) pre' bs d' ans]
    nd nf f pre
  show ?thesis by auto
qed

text \<open>
  The claim C4 as it is stated, for every run with a candidate, fails in a dry run: with
  \<open>force\<close> false no prompt is made, and with \<open>force\<close> true nothing is deleted.
\<close>

theorem run_confirmation_gate_counterexample:
  "\<not> force (demo_cfg True False True)
   \<and> fst (run_until_candidates (demo_env True AnswerYes) (demo_cfg True False True) 0)
       = Return [''feature/a'', ''feature/b'', ''fix'']
   \<and> filter is_prompt (trace (run (demo_env True AnswerYes) (demo_cfg True False True) 0)) = []
   \<and> force (demo_cfg True True True)
   \<and> fst (run_until_candidates (demo_env True AnswerYes) (demo_cfg True True True) 0)
       = Return [''feature/a'', ''feature/b'', ''fix'']
   \<and> pushed (trace (run (demo_env True AnswerYes) (demo_cfg True True True) 0)) = []"
proof -
  have "filter is_prompt (trace (run (demo_env True AnswerYes) (demo_cfg True False True) 0)) = []"
    by (simp add: prog_defs step_defs run_defs demo_env_def demo_cfg_def demo_refs_def)
  moreover
  have "pushed (trace (run (demo_env True AnswerYes) (demo_cfg True True True) 0)) = []"
    by (simp add: prog_defs step_defs run_defs demo_env_def demo_cfg_def demo_refs_def)
  ultimately show ?thesis
    using demo_candidates [of AnswerYes True False] demo_candidates [of AnswerYes True True]
    by (simp add: demo_cfg_def)
qed

section \<open>The repository check\<close>

lemma checkGitRepository_resolved:
  "git_checkIsRepo g s = (Resolved b, s1) \<Longrightarrow>
     checkGitRepository g cfg s = (Return (), [CheckIsRepo], s1)"
  by (simp add: checkGitRepository_def prog_defs)

lemma checkGitRepository_rejected:
  "git_checkIsRepo g s = (Rejected e, s1) \<Longrightarrow>
     checkGitRepository g cfg s
       = (Exit 1, [CheckIsRepo, Logged Red CrossMark ''Error: Not in a git repository''], s1)"
  by (simp add: checkGitRepository_def prog_defs)

text \<open>
  When the repository check is rejected, the run writes the error line and exits with
  status 1 before any other call.
\<close>

lemma run_checkIsRepo_rejected:
  "git_checkIsRepo g s = (Rejected e, s1) \<Longrightarrow>
     run g cfg s
       = (Exit 1,
          [Logged Blue Rocket ''Starting merged branch cleanup...'', CheckIsRepo,
           Logged Red CrossMark ''Error: Not in a git repository''], s1)"
  by (simp add: run_def checkGitRepository_rejected seq_def bind_def try_catch_def
      log_msg_def emit_def)

lemma fetchLatest_starts:
  "\<exists>c rest s'. fetchLatest g cfg s
     = (c, [Logged Yellow Satellite ''Fetching latest changes from origin...'',
            Fetch ''origin'' [''--prune'']] @ rest, s')"
  by (cases "git_fetch g ''origin'' [''--prune''] s")
     (auto simp: fetchLatest_def prog_defs split: outcome.splits)

text \<open>
  Claim C6, at the input where it fails. When the repository check resolves to \<open>false\<close>
  (the working directory is not inside a repository), \<open>checkGitRepository\<close> drops the
  value and returns, and \<open>run\<close> goes on to fetch from origin.
\<close>

theorem run_checkIsRepo_false:
  assumes "git_checkIsRepo g s = (Resolved False, s1)"
  shows "\<exists>rest. trace (run g cfg s)
     = [Logged Blue Rocket ''Starting merged branch cleanup...'', CheckIsRepo,
        Logged Yellow Satellite ''Fetching latest changes from origin...'',
        Fetch ''origin'' [''--prune'']] @ rest"
proof -
  define X where "X = seq (checkMainBranch g cfg)
       (bind (getMergedBranches g cfg) (after_candidates g cfg))"
  have run: "run g cfg
      = try_catch
          (seq (log_msg Blue Rocket ''Starting merged branch cleanup...'')
            (seq (checkGitRepository g cfg) (seq (fetchLatest g cfg) X)))
          run_catch"
    by (simp add: run_split run_until_candidates_def bind_seq_assoc X_def)
  from fetchLatest_starts [of g cfg s1] obtain c r s2 where
    "fetchLatest g cfg s1
       = (c, [Logged Yellow Satellite ''Fetching latest changes from origin...'',
              Fetch ''origin'' [''--prune'']] @ r, s2)" by blast
  from seq_prefix [where m = "fetchLatest g cfg" and n = X, OF this]
  obtain c' r' s3 where
    "seq (fetchLatest g cfg) X s1
       = (c', ([Logged Yellow Satellite ''Fetching latest changes from origin...'',
              Fetch ''origin'' [''--prune'']] @ r) @ r', s3)" by blast
  from seq_Return [where m = "checkGitRepository g cfg" and n = "seq (fetchLatest g cfg) X",
      OF checkGitRepository_resolved [OF assms] this]
  have "seq (checkGitRepository g cfg) (seq (fetchLatest g cfg) X) s
       = (c', [CheckIsRepo] @
            ([Logged Yellow Satellite ''Fetching latest changes from origin...'',
              Fetch ''origin'' [''--prune'']] @ r) @ r', s3)" .
  then have "seq (log_msg Blue Rocket ''Starting merged branch cleanup...'')
            (seq (checkGitRepository g cfg) (seq (fetchLatest g cfg) X)) s
       = (c', [Logged Blue Rocket ''Starting merged branch cleanup...''] @ [CheckIsRepo] @
            ([Logged Yellow Satellite ''Fetching latest changes from origin...'',
              Fetch ''origin'' [''--prune'']] @ r) @ r', s3)"
    by (intro seq_Return [where m = "log_msg Blue Rocket ''Starting merged branch cleanup...''"])
       (simp_all add: log_msg_def emit_def)
  from try_catch_prefix [where h = run_catch and s = s
      and m = "seq (log_msg Blue Rocket ''Starting merged branch cleanup...'')
            (seq (checkGitRepository g cfg) (seq (fetchLatest g cfg) X))", OF this]
  show ?thesis
    by (auto simp: run)
qed

theorem run_checkIsRepo_false_witness:
  "git_checkIsRepo (demo_env False AnswerNo) 0 = (Resolved False, 0)
   \<and> take 4 (trace (run (demo_env False AnswerNo) (demo_cfg False True True) 0))
       = [Logged Blue Rocket ''Starting merged branch cleanup...'', CheckIsRepo,
          Logged Yellow Satellite ''Fetching latest changes from origin...'',
          Fetch ''origin'' [''--prune'']]"
proof -
  have h: "git_checkIsRepo (demo_env False AnswerNo) 0 = (Resolved False, 0)"
    by (simp add: demo_env_def)
  from run_checkIsRepo_false [OF h, of "demo_cfg False True True"] h show ?thesis
    by auto
qed

text \<open>
  In the concrete world with the repository check resolving to \<open>false\<close> and \<open>force\<close>
  set, the run fetches, deletes the three candidates and ends with status 0.
\<close>

lemma demo_run_not_in_repo:
  "take 4 (trace (run (demo_env False AnswerNo) (demo_cfg False True True) 0))
     = [Logged Blue Rocket ''Starting merged branch cleanup...'', CheckIsRepo,
        Logged Yellow Satellite ''Fetching latest changes from origin...'',
        Fetch ''origin'' [''--prune'']]
   \<and> pushed (trace (run (demo_env False AnswerNo) (demo_cfg False True True) 0))
       = [''feature/a'', ''feature/b'', ''fix'']
   \<and> exitCode (fst (run (demo_env False AnswerNo) (demo_cfg False True True) 0)) = 0"
  by (simp add: prog_defs step_defs run_defs demo_env_def demo_cfg_def demo_refs_def exitCode_def)

section \<open>Relative dates\<close>

text \<open>
  For a date string that parses, the result follows the number of whole days elapsed.
\<close>

lemma getRelativeDate_ranges:
  assumes "date_parse g d = Some t" and days_def: "days = (date_now g s - t) div 86400000"
  shows "days = 0 \<Longrightarrow> getRelativeDate g s d = ''today''"
    and "days = 1 \<Longrightarrow> getRelativeDate g s d = ''yesterday''"
    and "2 \<le> days \<Longrightarrow> days \<le> 6 \<Longrightarrow> getRelativeDate g s d = show_int days @ '' days ago''"
    and "7 \<le> days \<Longrightarrow> days \<le> 29 \<Longrightarrow>
           getRelativeDate g s d = show_int (days div 7) @ '' weeks ago''"
    and "30 \<le> days \<Longrightarrow> days \<le> 364 \<Longrightarrow>
           getRelativeDate g s d = show_int (days div 30) @ '' months ago''"
    and "365 \<le> days \<Longrightarrow> getRelativeDate g s d = show_int (days div 365) @ '' years ago''"
  using assms(1) unfolding days_def
  by (simp_all add: getRelativeDate_def num_sub_def floor_div_def num_eq_def num_lt_def
      show_number_def Let_def)

text \<open>The elapsed days 5, 10, 40 and 400.\<close>

lemma getRelativeDate_examples:
  assumes "date_parse g d = Some t"
  shows "date_now g s = t + 5 * 86400000 \<Longrightarrow> getRelativeDate g s d = ''5 days ago''"
    and "date_now g s = t + 10 * 86400000 \<Longrightarrow> getRelativeDate g s d = ''1 weeks ago''"
    and "date_now g s = t + 40 * 86400000 \<Longrightarrow> getRelativeDate g s d = ''1 months ago''"
    and "date_now g s = t + 400 * 86400000 \<Longrightarrow> getRelativeDate g s d = ''1 years ago''"
  using assms
  by (simp_all add: getRelativeDate_def num_sub_def floor_div_def num_eq_def num_lt_def
      show_number_def show_int_def show_nat.simps)

lemma ends_in_o_not_unknown:
  assumes "last y = CHR ''o''" and "y \<noteq> []"
  shows "x @ y \<noteq> ''unknown''"
proof
  assume "x @ y = ''unknown''"
  then have "last (x @ y) = last ''unknown''" by simp
  with assms show False by simp
qed

lemma getRelativeDate_never_unknown: "getRelativeDate g s d \<noteq> ''unknown''"
  by (simp add: getRelativeDate_def Let_def ends_in_o_not_unknown)

text \<open>
  Claim C5, at the input where it fails. For a date string that does not parse, the time
  value is \<open>NaN\<close>, every comparison is false, and \<open>getRelativeDate\<close> returns
  \<open>NaN years ago\<close>, not \<open>unknown\<close>.
\<close>

theorem getRelativeDate_unparseable:
  assumes "date_parse g d = None"
  shows "getRelativeDate g s d = ''NaN years ago'' \<and> getRelativeDate g s d \<noteq> ''unknown''"
  using assms
  by (simp add: getRelativeDate_def num_sub_def floor_div_def num_eq_def num_lt_def
      show_number_def)

theorem getRelativeDate_unparseable_witness:
  "date_parse (demo_env True AnswerNo) ''unknown'' = None
   \<and> getRelativeDate (demo_env True AnswerNo) 0 ''unknown'' = ''NaN years ago''
   \<and> getRelativeDate (demo_env True AnswerNo) 0 ''unknown'' \<noteq> ''unknown''"
proof -
  have h: "date_parse (demo_env True AnswerNo) ''unknown'' = None"
    by (simp add: demo_env_def)
  from getRelativeDate_unparseable [OF h, of 0] h show ?thesis by simp
qed

section \<open>A ref that ends with the main ref\<close>


lemma seq_assoc: "seq (seq a b) c = seq a (seq b c)"
  by (simp add: seq_def [of "seq a b"] bind_seq_assoc) (simp add: seq_def)

lemma run_until_candidates_split:
  "run_until_candidates g cfg = seq (run_until_merged g cfg) (getMergedBranches g cfg)"
  by (simp add: run_until_candidates_def run_until_merged_def seq_assoc)

lemma within_list:
  "list_all (within bs) es \<Longrightarrow> set (pushed es) \<subseteq> set bs \<and> set (displayed es) \<subseteq> set bs"
  by (induction es rule: displayed.induct) simp_all

lemma within_printAll: "only (within bs) (printAll xs)"
  by (induction xs) (simp_all add: only_rules)

lemma within_filterLoop: "only (within bs) (filterLoop cfg xs acc)"
  by (induction xs arbitrary: acc) (simp_all add: only_rules)

lemma within_run_until_candidates: "only (within bs) (run_until_candidates g cfg)"
  unfolding run_until_candidates_def checkGitRepository_def fetchLatest_def
    checkMainBranch_def getMergedBranches_def Let_def
  by (intro only_rules) (simp_all add: only_rules within_printAll within_filterLoop)

lemma within_getBranchInfo: "only (within bs) (getBranchInfo g b)"
  unfolding getBranchInfo_def
  by (intro only_rules) (simp_all add: only_rules split: option.splits)

lemma within_relativeDate: "only (within bs) (\<lambda>s. ret (f s) s)"
  by (simp add: only_def ret_def)

lemma within_displayLoop: "set xs \<subseteq> set bs \<Longrightarrow> only (within bs) (displayLoop g xs)"
proof (induction xs)
  case Nil
  show ?case by (simp add: only_rules)
next
  case (Cons x xs)
  then have "only (within bs) (displayLoop g xs)" and "x \<in> set bs" by simp_all
  then show ?case
    unfolding displayLoop.simps
    by (intro only_rules within_getBranchInfo within_relativeDate) simp_all
qed

lemma within_deleteLoop: "set xs \<subseteq> set bs \<Longrightarrow> only (within bs) (deleteLoop g xs c)"
proof (induction xs arbitrary: c)
  case Nil
  show ?case by (simp add: only_rules)
next
  case (Cons x xs)
  then have "\<And>c. only (within bs) (deleteLoop g xs c)" and "x \<in> set bs" by simp_all
  then show ?case
    unfolding deleteLoop.simps
    by (intro only_rules) simp_all
qed

lemma within_after_candidates: "only (within bs) (after_candidates g cfg bs)"
  unfolding after_candidates_def displayBranches_def confirmDeletion_def deleteBranches_def
    cleanupLocal_def summary_def getRemainingBranchCount_def
  by (auto intro!: only_rules within_displayLoop within_deleteLoop)

lemma run_within_candidates:
  assumes "run_until_candidates g cfg s = (Return bs, es0, s0)"
  shows "list_all (within bs) (trace (run g cfg s))"
proof -
  obtain c es s' where ac: "after_candidates g cfg bs s0 = (c, es, s')"
    using prod_cases3 by blast
  have "list_all (within bs) es0"
    using onlyD [OF within_run_until_candidates assms] .
  moreover have "list_all (within bs) es"
    using onlyD [OF within_after_candidates ac] .
  ultimately show ?thesis
    using run_after_candidates [OF assms ac] by (cases c) simp_all
qed


text \<open>
  Claim C10, amended. A listed ref that ends with \<open>origin/<mainBranch>\<close> is dropped by
  the second filter, whatever precedes that suffix: the candidate list is the one
  computed from the other listed refs, and the run displays and deletes branches of that
  list only. So the branch name of the dropped ref is neither a candidate, nor displayed,
  nor deleted, unless another listed ref gives the same name.
\<close>

theorem mainRef_suffix_dropped:
  assumes "endsWith r (''origin/'' @ mainBranch cfg)"
    and "run_until_merged g cfg s0 = (Return (), es0, s)"
    and "git_branch g (mergedArgs cfg) s = (Resolved (xs @ r # ys), s')"
  shows "\<exists>bs es. getMergedBranches g cfg s = (Return bs, es, s')
           \<and> bs = filter (kept cfg) (mergedBranches cfg (xs @ ys))
           \<and> run_until_candidates g cfg s0 = (Return bs, es0 @ es, s')
           \<and> set (displayed (trace (run g cfg s0))) \<subseteq> set bs
           \<and> set (pushed (trace (run g cfg s0))) \<subseteq> set bs
           \<and> (trim (replace_str r ''origin/'' []) \<notin> set (mergedBranches cfg (xs @ ys)) \<longrightarrow>
                trim (replace_str r ''origin/'' []) \<notin> set bs
                \<and> trim (replace_str r ''origin/'' []) \<notin> set (displayed (trace (run g cfg s0)))
                \<and> trim (replace_str r ''origin/'' []) \<notin> set (pushed (trace (run g cfg s0))))"
proof -
  define bs where "bs = filter (kept cfg) (mergedBranches cfg (xs @ ys))"
  from getMergedBranches_drops_mainRef [OF assms(1,3)] obtain es where
    m: "getMergedBranches g cfg s = (Return bs, es, s')"
    unfolding bs_def ..
  have pre: "run_until_candidates g cfg s0 = (Return bs, es0 @ es, s')"
    using seq_Return [where m = "run_until_merged g cfg" and n = "getMergedBranches g cfg",
        OF assms(2) m]
    by (simp add: run_until_candidates_split)
  from within_list [OF run_within_candidates [OF pre]]
  have sub: "set (pushed (trace (run g cfg s0))) \<subseteq> set bs"
    "set (displayed (trace (run g cfg s0))) \<subseteq> set bs"
    by simp_all
  have "set bs \<subseteq> set (mergedBranches cfg (xs @ ys))"
    by (simp add: bs_def)
  with m pre sub show ?thesis
    unfolding bs_def [symmetric] by blast
qed

lemmas collide_defs =
  prog_defs step_defs run_defs demo_env_refs_def demo_env_def demo_cfg_def kept_def
  run_until_merged_def

theorem mainRef_suffix_dropped_witness:
  "endsWith ''origin/foo/origin/main'' (''origin/'' @ mainBranch (demo_cfg False True True))
   \<and> fst (run_until_merged
             (demo_env_refs ([''origin/main'', ''origin/fix''] @ ''origin/foo/origin/main'' # []))
             (demo_cfg False True True) 0) = Return ()
   \<and> fst (getMergedBranches
             (demo_env_refs ([''origin/main'', ''origin/fix''] @ ''origin/foo/origin/main'' # []))
             (demo_cfg False True True) 0) = Return [''fix'']
   \<and> ''foo/origin/main'' \<notin> set (displayed (trace (run
             (demo_env_refs ([''origin/main'', ''origin/fix''] @ ''origin/foo/origin/main'' # []))
             (demo_cfg False True True) 0)))
   \<and> ''foo/origin/main'' \<notin> set (pushed (trace (run
             (demo_env_refs ([''origin/main'', ''origin/fix''] @ ''origin/foo/origin/main'' # []))
             (demo_cfg False True True) 0)))"
proof -
  let ?W = "demo_env_refs ([''origin/main'', ''origin/fix''] @ ''origin/foo/origin/main'' # [])"
  let ?C = "demo_cfg False True True"
  have h1: "endsWith ''origin/foo/origin/main'' (''origin/'' @ mainBranch ?C)"
    by (simp add: endsWith_def demo_cfg_def)
  obtain c es0 s where u: "run_until_merged ?W ?C 0 = (c, es0, s)"
    using prod_cases3 by blast
  have "fst (run_until_merged ?W ?C 0) = Return ()"
    and "snd (snd (run_until_merged ?W ?C 0)) = 0"
    by (simp_all add: collide_defs)
  with u have h2: "run_until_merged ?W ?C 0 = (Return (), es0, 0)"
    by simp
  have h3: "git_branch ?W (mergedArgs ?C) 0
      = (Resolved ([''origin/main'', ''origin/fix''] @ ''origin/foo/origin/main'' # []), 0)"
    by (simp add: demo_env_refs_def)
  have h4: "filter (kept ?C) (mergedBranches ?C ([''origin/main'', ''origin/fix''] @ []))
      = [''fix'']"
    by (simp add: collide_defs)
  have h5: "trim (replace_str ''origin/foo/origin/main'' ''origin/'' []) = ''foo/origin/main''"
    by (simp add: startsWith_def trim_def isWhiteSpace_def)
  have h6: "''foo/origin/main''
      \<notin> set (mergedBranches ?C ([''origin/main'', ''origin/fix''] @ []))"
    by (simp add: collide_defs)
  from mainRef_suffix_dropped [OF h1 h2 h3] h1 h2 h4 h5 h6 show ?thesis
    by auto
qed

text \<open>
  The claim C10 as it is stated, that such a branch is never displayed or deleted, fails
  when another listed ref gives the same name: \<open>foo/oorigin/rigin/main\<close> does not end
  with \<open>origin/main\<close>, and replacing its first \<open>origin/\<close> gives \<open>foo/origin/main\<close>, which
  is then displayed and deleted.
\<close>

theorem mainRef_suffix_counterexample:
  "endsWith ''origin/foo/origin/main'' (''origin/'' @ mainBranch (demo_cfg False True True))
   \<and> fst (git_branch
        (demo_env_refs [''origin/main'', ''origin/foo/origin/main'', ''foo/oorigin/rigin/main''])
        (mergedArgs (demo_cfg False True True)) 0)
       = Resolved [''origin/main'', ''origin/foo/origin/main'', ''foo/oorigin/rigin/main'']
   \<and> trim (replace_str ''origin/foo/origin/main'' ''origin/'' []) = ''foo/origin/main''
   \<and> fst (run_until_candidates
        (demo_env_refs [''origin/main'', ''origin/foo/origin/main'', ''foo/oorigin/rigin/main''])
        (demo_cfg False True True) 0) = Return [''foo/origin/main'']
   \<and> displayed (trace (run
        (demo_env_refs [''origin/main'', ''origin/foo/origin/main'', ''foo/oorigin/rigin/main''])
        (demo_cfg False True True) 0)) = [''foo/origin/main'']
   \<and> pushed (trace (run
        (demo_env_refs [''origin/main'', ''origin/foo/origin/main'', ''foo/oorigin/rigin/main''])
        (demo_cfg False True True) 0)) = [''foo/origin/main'']"
  by (simp add: collide_defs)

end
